theory Spec2Isabelle
  imports Complex_Main "HOL-Library.AList"
begin

section \<open>Admission and priority of the miner: a shallow embedding\<close>

text \<open>
  The development embeds \<^verbatim>\<open>model/lib/blacklist.py\<close> and
  \<^verbatim>\<open>nimminers/lib/priority.py\<close>. Conventions:
  \<^item> \<open>self\<close> is the record \<open>Miner\<close>; a function that mutates \<open>self\<close> returns the new record.
  \<^item> A Python exception is a value of \<open>py_error\<close>; a function that can raise returns
    \<open>py_error + 'a\<close>, with \<open>Inl\<close> for the exception.
  \<^item> Python floats (clock readings, stake, priorities) are modelled as reals, Python ints
    as \<open>int\<close>. Rounding of floating-point arithmetic is outside the model.
  \<^item> Every reading of \<^verbatim>\<open>time.time()\<close> is an explicit argument.
  \<^item> Calls to the logging sinks (\<^verbatim>\<open>logging.trace\<close>, \<^verbatim>\<open>logging.error\<close>,
    \<^verbatim>\<open>wandb.log\<close>) do not contribute to any returned value and are left out.
\<close>

subsection \<open>Python values and exceptions\<close>

datatype py_error =
    NotImplementedError
  | AttributeError
  | IndexError
  | ValueError
  | TypeError
  | ZeroDivisionError
  | RuntimeError
  | KeyboardInterrupt

text \<open>\<^verbatim>\<open>except Exception\<close> catches every class above but \<open>KeyboardInterrupt\<close>, which derives
  from \<^verbatim>\<open>BaseException\<close> only.\<close>

fun is_Exception :: "py_error \<Rightarrow> bool" where
  "is_Exception KeyboardInterrupt = False"
| "is_Exception _ = True"

text \<open>The values a deployment's override function may hand back.\<close>

datatype pyval =
    PyNone
  | PyBool bool
  | PyNum real
  | PyStr string
  | PyTuple "pyval list"

text \<open>The outcome of calling an override function on a request.\<close>

datatype 'a outcome = Raises py_error | Returns 'a

text \<open>\<^verbatim>\<open>xs[i]\<close> for a Python int \<open>i\<close>: a negative index counts from the end, an index outside
  \<open>-len \<dots> len - 1\<close> raises \<open>IndexError\<close>.\<close>

definition py_index :: "'a list \<Rightarrow> int \<Rightarrow> py_error + 'a" where
  "py_index xs i =
     (if i < - int (length xs) \<or> int (length xs) \<le> i then Inl IndexError
      else if i < 0 then Inr (xs ! nat (int (length xs) + i))
      else Inr (xs ! nat i))"

text \<open>\<^verbatim>\<open>xs[i:]\<close>: a negative start counts from the end and is clipped at the front; a start
  beyond the end gives the empty list. Note that \<^verbatim>\<open>xs[-0:]\<close> is \<^verbatim>\<open>xs[0:]\<close>, the whole list.\<close>

definition py_slice_from :: "'a list \<Rightarrow> int \<Rightarrow> 'a list" where
  "py_slice_from xs i =
     (if i < 0 then drop (nat (int (length xs) + i)) xs else drop (nat i) xs)"

text \<open>\<^verbatim>\<open>[x] * n\<close>: \<open>n\<close> copies, none when \<open>n \<le> 0\<close>.\<close>

definition py_repeat :: "'a \<Rightarrow> int \<Rightarrow> 'a list" where
  "py_repeat x n = replicate (nat n) x"

text \<open>\<^verbatim>\<open>xs.index(x)\<close>: the first position of \<open>x\<close>, \<open>ValueError\<close> when there is none.\<close>

fun list_index :: "'a list \<Rightarrow> 'a \<Rightarrow> py_error + nat" where
  "list_index [] x = Inl ValueError"
| "list_index (y # ys) x =
     (if y = x then Inr 0
      else (case list_index ys x of Inl e \<Rightarrow> Inl e | Inr i \<Rightarrow> Inr (Suc i)))"

text \<open>\<^verbatim>\<open>str(n)\<close> for an int, as the f-string of the rate-limit reason formats it.\<close>

fun str_nat :: "nat \<Rightarrow> string" where
  "str_nat n =
     (if n < 10 then [''0123456789'' ! n]
      else str_nat (n div 10) @ [''0123456789'' ! (n mod 10)])"

declare str_nat.simps [simp del]

definition str_int :: "int \<Rightarrow> string" where
  "str_int i = (if i < 0 then CHR ''-'' # str_nat (nat (- i)) else str_nat (nat i))"

subsection \<open>Data model\<close>

text \<open>The network snapshot (\<^verbatim>\<open>self.megastring\<close>): block height, the identities in UID order,
  the stake vector \<open>S\<close> and the validator-permit vector.\<close>

record Megastring =
  block :: int
  hotkeys :: "string list"
  S :: "real list"
  validator_permit :: "bool list"

text \<open>The settings read by the two modules; \<^verbatim>\<open>config.miner.blacklist.x\<close> is the field
  \<open>blacklist_x\<close>, \<^verbatim>\<open>config.miner.priority.x\<close> the field \<open>priority_x\<close>. All numeric settings are
  parsed with \<^verbatim>\<open>type=int\<close>, except the default priority, a float.\<close>

record Config =
  blacklist_whitelist :: "string list"
  blacklist_blacklist :: "string list"
  blacklist_force_validator_permit :: bool
  blacklist_allow_non_registered :: bool
  blacklist_request_cache_block_span :: int
  blacklist_min_request_period :: int
  priority_default :: real
  priority_time_stake_multiplicate :: int
  priority_len_request_timestamps :: int

text \<open>The request: \<^verbatim>\<open>nucleon.boson.hotkey\<close> and \<^verbatim>\<open>nucleon.messages\<close>.\<close>

record Inference =
  hotkey :: string
  messages :: "string list"

text \<open>The miner. \<open>megastring\<close> is \<open>None\<close> where the Python attribute is \<^verbatim>\<open>None\<close>. The
  timestamp histories are a dictionary from hotkey to list; the request cache is a
  dictionary that the code iterates over, kept as an association list in insertion order.\<close>

record Miner =
  config :: Config
  megastring :: "Megastring option"
  request_timestamps :: "string \<rightharpoonup> real list"
  request_cache :: "(string \<times> int) list"

subsection \<open>The default admission policy\<close>

text \<open>Lines 84--94 of \<^verbatim>\<open>blacklist.py\<close>: the request-period rule and the final acceptance.\<close>

definition request_period_rule :: "Miner \<Rightarrow> real \<Rightarrow> Inference \<Rightarrow> py_error + bool \<times> string" where
  "request_period_rule self now nucleon =
     (case request_timestamps self (hotkey nucleon) of
        None \<Rightarrow> Inr (False, ''passed blacklist'')
      | Some h \<Rightarrow>
          (case py_index h 0 of
             Inl e \<Rightarrow> Inl e
           | Inr t0 \<Rightarrow>
               if now - t0 < real_of_int (blacklist_min_request_period (config self) * 60)
               then Inr (True,
                      hotkey nucleon @ '' request frequency exceeded '' @ str_nat (length h)
                        @ '' requests in '' @ str_int (blacklist_min_request_period (config self))
                        @ '' minutes.'')
               else Inr (False, ''passed blacklist'')))"

text \<open>\<^verbatim>\<open>default_blacklist\<close>, lines 58--94. The first component of the result is
  \<open>True\<close> for a rejection. With \<^verbatim>\<open>force_validator_permit\<close> set, the code reads
  \<^verbatim>\<open>self.megastring.hotkeys\<close> without a test for \<^verbatim>\<open>None\<close>.\<close>

definition default_blacklist :: "Miner \<Rightarrow> real \<Rightarrow> Inference \<Rightarrow> py_error + bool \<times> string" where
  "default_blacklist self now nucleon =
     (if hotkey nucleon \<in> set (blacklist_whitelist (config self)) then
        Inr (False, ''whitelisted hotkey'')
      else if hotkey nucleon \<in> set (blacklist_blacklist (config self)) then
        Inr (True, ''blacklisted hotkey'')
      else if \<not> blacklist_allow_non_registered (config self)
              \<and> (case megastring self of None \<Rightarrow> False
                  | Some m \<Rightarrow> hotkey nucleon \<notin> set (hotkeys m)) then
        Inr (True, ''hotkey not registered'')
      else if blacklist_force_validator_permit (config self) then
        (case megastring self of
           None \<Rightarrow> Inl AttributeError
         | Some m \<Rightarrow>
             if hotkey nucleon \<in> set (hotkeys m) then
               (case list_index (hotkeys m) (hotkey nucleon) of
                  Inl e \<Rightarrow> Inl e
                | Inr uid \<Rightarrow>
                    (case py_index (validator_permit m) (int uid) of
                       Inl e \<Rightarrow> Inl e
                     | Inr permit \<Rightarrow>
                         if \<not> permit then Inr (True, ''validator permit required'')
                         else request_period_rule self now nucleon))
             else Inr (True, ''validator permit required, but hotkey not registered''))
      else request_period_rule self now nucleon)"

subsection \<open>The admission dispatcher\<close>

text \<open>\<^verbatim>\<open>hasattr(v, "__len__")\<close>: strings and tuples have a length; \<^verbatim>\<open>None\<close>, booleans and
  numbers have none.\<close>

fun has_len :: "pyval \<Rightarrow> bool" where
  "has_len (PyStr _) = True"
| "has_len (PyTuple _) = True"
| "has_len _ = False"

text \<open>\<^verbatim>\<open>does_blacklist, reason = blacklist_result\<close> for a value with a length: exactly two
  elements are needed, anything else raises \<open>ValueError\<close> and assigns nothing.\<close>

fun unpack_pair :: "pyval \<Rightarrow> py_error + pyval \<times> pyval" where
  "unpack_pair (PyTuple [a, b]) = Inr (a, b)"
| "unpack_pair (PyTuple _) = Inl ValueError"
| "unpack_pair (PyStr [c, d]) = Inr (PyStr [c], PyStr [d])"
| "unpack_pair (PyStr _) = Inl ValueError"
| "unpack_pair _ = Inl TypeError"

text \<open>The default policy's pair as Python values.\<close>

fun as_pyval :: "bool \<times> string \<Rightarrow> pyval \<times> pyval" where
  "as_pyval (b, r) = (PyBool b, PyStr r)"

text \<open>
  \<^verbatim>\<open>blacklist\<close>, lines 97--140. \<open>func\<close> is the override. The three phases of the
  \<^verbatim>\<open>try\<close> statement are kept apart:
  \<^item> the body calls \<open>func\<close> and unpacks its result;
  \<^item> both \<^verbatim>\<open>except\<close> clauses call the default policy; an exception raised there leaves
    \<^verbatim>\<open>does_blacklist\<close> at \<^verbatim>\<open>None\<close>, and so does a \<^verbatim>\<open>BaseException\<close> that no clause catches;
  \<^item> the \<^verbatim>\<open>finally\<close> block calls the default policy when \<^verbatim>\<open>does_blacklist == None\<close> and
    returns; its \<^verbatim>\<open>return\<close> discards any exception still pending, and an exception raised
    inside it reaches the caller.
  The first component of the result counts the calls made to \<open>default_blacklist\<close>; it is
  bookkeeping added to the model so that "the default policy is not consulted" can be
  stated. The second component is what the Python function returns or raises.
\<close>

definition blacklist ::
  "Miner \<Rightarrow> (Inference \<Rightarrow> pyval outcome) \<Rightarrow> real \<Rightarrow> Inference \<Rightarrow> nat \<times> (py_error + pyval \<times> pyval)" where
  "blacklist self func now nucleon =
     (let body =
            (case func nucleon of
               Raises e \<Rightarrow> Inl e
             | Returns blacklist_result \<Rightarrow>
                 if has_len blacklist_result then unpack_pair blacklist_result
                 else Inr (blacklist_result, PyStr ''no reason provided''));
          handled =
            (case body of
               Inr (does_blacklist, reason) \<Rightarrow> (0, does_blacklist, reason)
             | Inl e \<Rightarrow>
                 if e = NotImplementedError \<or> is_Exception e then
                   (case default_blacklist self now nucleon of
                      Inr dr \<Rightarrow> (Suc 0, as_pyval dr)
                    | Inl _ \<Rightarrow> (Suc 0, PyNone, PyNone))
                 else (0, PyNone, PyNone))
      in case handled of
           (calls, does_blacklist, reason) \<Rightarrow>
             if does_blacklist = PyNone then
               (case default_blacklist self now nucleon of
                  Inr dr \<Rightarrow> (Suc calls, Inr (as_pyval dr))
                | Inl e \<Rightarrow> (Suc calls, Inl e))
             else (calls, Inr (does_blacklist, reason)))"

subsection \<open>The deduplication cache\<close>

text \<open>
  \<^verbatim>\<open>is_request_in_cache\<close>, lines 26--55, as the awaited coroutine computes it inside the
  lock. \<open>digest\<close> stands for \<^verbatim>\<open>hashlib.sha256(json.dumps(list(messages)).encode()).hexdigest()\<close>.
  The first loop collects the keys whose block is older than the span, the second
  deletes them.
\<close>

definition is_request_in_cache ::
  "(string list \<Rightarrow> string) \<Rightarrow> Miner \<Rightarrow> Inference \<Rightarrow> py_error + bool \<times> Miner" where
  "is_request_in_cache digest self nucleon =
     (let request_key = digest (messages nucleon) in
      case megastring self of
        None \<Rightarrow> Inl AttributeError
      | Some m \<Rightarrow>
          (let current_block = block m;
               should_blacklist = (request_key \<in> set (map fst (request_cache self)));
               cache1 = (if should_blacklist then request_cache self
                         else AList.update request_key current_block (request_cache self));
               keys_to_remove =
                 map fst (filter (\<lambda>(key, blk).
                    blk + blacklist_request_cache_block_span (config self) < current_block) cache1);
               cache2 = fold AList.delete keys_to_remove cache1
           in Inr (should_blacklist, self\<lparr>request_cache := cache2\<rparr>)))"

subsection \<open>The rolling timestamp tracker and the priority scorer\<close>

text \<open>\<^verbatim>\<open>record_request_timestamps\<close>, lines 25--35 of \<^verbatim>\<open>priority.py\<close>; \<open>now\<close> is the clock
  reading that is appended. The Python function returns \<^verbatim>\<open>self.request_timestamps\<close>, the
  field of the record returned here.\<close>

definition record_request_timestamps :: "Miner \<Rightarrow> real \<Rightarrow> Inference \<Rightarrow> Miner" where
  "record_request_timestamps self now nucleon =
     (let timestamp_length = priority_len_request_timestamps (config self);
          created = (case request_timestamps self (hotkey nucleon) of
                       None \<Rightarrow> py_repeat 0 timestamp_length
                     | Some h \<Rightarrow> h);
          appended = created @ [now]
      in self\<lparr>request_timestamps :=
                (request_timestamps self)
                  (hotkey nucleon \<mapsto> py_slice_from appended (- timestamp_length))\<rparr>)"

text \<open>
  \<^verbatim>\<open>default_priority\<close>, lines 38--65. \<open>now\<close> is the clock reading of line 54, \<open>now_rec\<close> the
  later one appended by the tracker. A caller is registered when the snapshot is present
  and lists it; otherwise the function returns at line 46, before the tracker is reached.
\<close>

definition default_priority ::
  "Miner \<Rightarrow> real \<Rightarrow> real \<Rightarrow> Inference \<Rightarrow> py_error + real \<times> Miner" where
  "default_priority self now now_rec nucleon =
     (case megastring self of
        None \<Rightarrow> Inr (priority_default (config self), self)
      | Some m \<Rightarrow>
          if hotkey nucleon \<notin> set (hotkeys m) then Inr (priority_default (config self), self)
          else
            (case list_index (hotkeys m) (hotkey nucleon) of
               Inl e \<Rightarrow> Inl e
             | Inr uid \<Rightarrow>
                 (case py_index (S m) (int uid) of
                    Inl e \<Rightarrow> Inl e
                  | Inr stake_amount \<Rightarrow>
                      (case (case request_timestamps self (hotkey nucleon) of
                               None \<Rightarrow> Inr (priority_default (config self))
                             | Some h \<Rightarrow>
                                 (case py_index h (- 10) of
                                    Inl e \<Rightarrow> Inl e
                                  | Inr t \<Rightarrow>
                                      if priority_time_stake_multiplicate (config self) * 60 = 0
                                      then Inl ZeroDivisionError
                                      else Inr (max ((now - t) / real_of_int
                                                  (priority_time_stake_multiplicate (config self) * 60)) 1
                                                * stake_amount)))
                       of Inl e \<Rightarrow> Inl e
                        | Inr p \<Rightarrow> Inr (p, record_request_timestamps self now_rec nucleon)))))"

text \<open>
  \<^verbatim>\<open>priority\<close>, lines 68--89. The override returns a float or \<^verbatim>\<open>None\<close>. Only the
  \<^verbatim>\<open>NotImplementedError\<close> clause calls the default scorer; the \<^verbatim>\<open>finally\<close> block calls it
  when \<^verbatim>\<open>priority == None\<close>, which is also the case after the default scorer raised inside
  the handler (it raises before it changes any state). The two calls are given the same
  clock readings: the second happens only after the first has raised, and raising does
  not depend on the clock.
\<close>

definition priority ::
  "Miner \<Rightarrow> (Inference \<Rightarrow> real option outcome) \<Rightarrow> real \<Rightarrow> real \<Rightarrow> Inference
     \<Rightarrow> py_error + real \<times> Miner" where
  "priority self func now now_rec nucleon =
     (let handled =
            (case func nucleon of
               Returns r \<Rightarrow> (r, self)
             | Raises e \<Rightarrow>
                 if e = NotImplementedError then
                   (case default_priority self now now_rec nucleon of
                      Inr (p, self') \<Rightarrow> (Some p, self')
                    | Inl _ \<Rightarrow> (None, self))
                 else (None, self))
      in case handled of
           (Some p, self') \<Rightarrow> Inr (p, self')
         | (None, self') \<Rightarrow> default_priority self' now now_rec nucleon)"

text \<open>The tracker applied to a run of requests of one caller, one clock reading per
  request, oldest first.\<close>

definition record_requests :: "Miner \<Rightarrow> real list \<Rightarrow> Inference \<Rightarrow> Miner" where
  "record_requests self ts nucleon =
     fold (\<lambda>t s. record_request_timestamps s t nucleon) ts self"

subsection \<open>Example configurations and states\<close>

text \<open>The defaults of \<^verbatim>\<open>config.py\<close>.\<close>

definition default_config :: Config where
  "default_config =
     \<lparr>blacklist_whitelist = [], blacklist_blacklist = [],
      blacklist_force_validator_permit = False, blacklist_allow_non_registered = False,
      blacklist_request_cache_block_span = 7200, blacklist_min_request_period = 5,
      priority_default = 0, priority_time_stake_multiplicate = 10,
      priority_len_request_timestamps = 50\<rparr>"

text \<open>A snapshot with two identities; only the first holds a validator permit.\<close>

definition example_megastring :: Megastring where
  "example_megastring =
     \<lparr>block = 1000, hotkeys = [''alice'', ''bob''], S = [10, 3],
      validator_permit = [True, False]\<rparr>"

text \<open>A freshly started miner: both dictionaries empty.\<close>

definition fresh_miner :: "Config \<Rightarrow> Megastring option \<Rightarrow> Miner" where
  "fresh_miner c m =
     \<lparr>config = c, megastring = m, request_timestamps = Map.empty, request_cache = []\<rparr>"

definition request_from :: "string \<Rightarrow> Inference" where
  "request_from k = \<lparr>hotkey = k, messages = [''hello'']\<rparr>"

text \<open>A configuration with \<open>alice\<close> on both lists and \<open>mallory\<close> on the blacklist.\<close>

definition listed_config :: Config where
  "listed_config =
     default_config\<lparr>blacklist_whitelist := [''alice''],
                    blacklist_blacklist := [''alice'', ''mallory'']\<rparr>"

text \<open>
  A miner that holds for \<open>alice\<close> a full history of fifty requests, all at time 1000, and
  a miner whose cache holds one stale and one fresh fingerprint at block 9000.
\<close>

definition busy_miner :: Miner where
  "busy_miner =
     \<lparr>config = default_config, megastring = Some example_megastring,
      request_timestamps = [''alice'' \<mapsto> replicate 50 1000], request_cache = []\<rparr>"

definition cached_miner :: Miner where
  "cached_miner =
     \<lparr>config = default_config, megastring = Some (example_megastring\<lparr>block := 9000\<rparr>),
      request_timestamps = Map.empty, request_cache = [(''hello'', 10), (''other'', 8000)]\<rparr>"

text \<open>A miner configured for histories of ten entries that holds for \<open>alice\<close> the
  clock readings 1 to 10.\<close>

definition counting_miner :: Miner where
  "counting_miner =
     \<lparr>config = default_config\<lparr>priority_len_request_timestamps := 10\<rparr>,
      megastring = Some example_megastring,
      request_timestamps = [''alice'' \<mapsto> [1, 2, 3, 4, 5, 6, 7, 8, 9, 10]],
      request_cache = []\<rparr>"

subsection \<open>Facts about the Python primitives\<close>

lemma list_index_mem:
  "x \<in> set xs \<Longrightarrow> \<exists>i. list_index xs x = Inr i \<and> i < length xs \<and> xs ! i = x"
proof (induction xs)
  case Nil
  then show ?case by simp
next
  case (Cons y ys)
  show ?case
  proof (cases "y = x")
    case True
    then show ?thesis by simp
  next
    case False
    with Cons.prems have "x \<in> set ys" by simp
    from Cons.IH [OF this] obtain i where "list_index ys x = Inr i" "i < length ys" "ys ! i = x"
      by blast
    with False show ?thesis by simp
  qed
qed

lemma list_index_first:
  "list_index xs x = Inr i \<Longrightarrow> x \<in> set xs \<and> i < length xs \<and> xs ! i = x \<and> (\<forall>j<i. xs ! j \<noteq> x)"
proof (induction xs arbitrary: i)
  case Nil
  then show ?case by simp
next
  case (Cons y ys)
  show ?case
  proof (cases "y = x")
    case True
    with Cons.prems show ?thesis by simp
  next
    case False
    with Cons.prems obtain i' where i': "list_index ys x = Inr i'" "i = Suc i'"
      by (auto split: sum.splits)
    from Cons.IH [OF i'(1)] False i'(2) show ?thesis
      by (auto simp: nth_Cons split: nat.splits)
  qed
qed

lemma py_index_oldest: "h \<noteq> [] \<Longrightarrow> py_index h 0 = Inr (h ! 0)"
  by (simp add: py_index_def)

lemma py_index_empty: "py_index [] i = Inl IndexError"
  by (auto simp: py_index_def)

lemma py_index_lookback:
  "10 \<le> length h \<Longrightarrow> py_index h (- 10) = Inr (h ! (length h - 10))"
  by (simp add: py_index_def nat_diff_distrib' of_nat_diff)

lemma py_index_nat: "i < length xs \<Longrightarrow> py_index xs (int i) = Inr (xs ! i)"
  by (simp add: py_index_def)

lemma length_py_slice_last:
  "1 \<le> n \<Longrightarrow> length (py_slice_from (xs @ [t]) (- n)) = min (nat n) (Suc (length xs))"
  by (auto simp: py_slice_from_def)

lemma last_py_slice_last:
  "0 \<le> n \<Longrightarrow> py_slice_from (xs @ [t]) (- n) \<noteq> [] \<and> last (py_slice_from (xs @ [t]) (- n)) = t"
  by (auto simp: py_slice_from_def)

subsection \<open>Facts about the cache sweep\<close>

text \<open>
  Deleting a list of keys removes exactly those keys; with distinct keys, the keys the
  first loop collects are those whose entry is older than the span.
\<close>

lemma map_of_fold_delete:
  "map_of (fold AList.delete ks al) k = (if k \<in> set ks then None else map_of al k)"
proof (induction ks arbitrary: al)
  case Nil
  then show ?case by simp
next
  case (Cons x xs)
  show ?case by (simp add: Cons.IH AList.delete_conv')
qed

lemma distinct_fold_delete:
  "distinct (map fst al) \<Longrightarrow> distinct (map fst (fold AList.delete ks al))"
  by (induction ks arbitrary: al) (simp_all add: AList.distinct_delete)

lemma expired_keys_iff:
  assumes "distinct (map fst al)"
  shows "k \<in> set (map fst (filter (\<lambda>(key, blk). blk + ttl < cur) al))
           \<longleftrightarrow> (\<exists>b. map_of al k = Some b \<and> b + ttl < cur)"
proof
  assume "k \<in> set (map fst (filter (\<lambda>(key, blk). blk + ttl < cur) al))"
  then obtain b where "(k, b) \<in> set al" "b + ttl < cur" by auto
  with assms show "\<exists>b. map_of al k = Some b \<and> b + ttl < cur" by auto
next
  assume "\<exists>b. map_of al k = Some b \<and> b + ttl < cur"
  then obtain b where "map_of al k = Some b" "b + ttl < cur" by blast
  then have "(k, b) \<in> set al" by (simp add: map_of_SomeD)
  with \<open>b + ttl < cur\<close> show "k \<in> set (map fst (filter (\<lambda>(key, blk). blk + ttl < cur) al))"
    by force
qed

lemma map_of_sweep:
  assumes "distinct (map fst al)"
  shows "map_of (fold AList.delete (map fst (filter (\<lambda>(key, blk). blk + ttl < cur) al)) al) k
           = (case map_of al k of None \<Rightarrow> None
              | Some b \<Rightarrow> if b + ttl < cur then None else Some b)"
  unfolding map_of_fold_delete expired_keys_iff [OF assms]
  by (simp split: option.splits)

lemma is_request_in_cache_result:
  assumes snap: "megastring self = Some m"
    and dist: "distinct (map fst (request_cache self))"
  shows "\<exists>self'. is_request_in_cache digest self nucleon
             = Inr (map_of (request_cache self) (digest (messages nucleon)) \<noteq> None, self')
          \<and> distinct (map fst (request_cache self'))
          \<and> config self' = config self \<and> megastring self' = megastring self
          \<and> request_timestamps self' = request_timestamps self
          \<and> (\<forall>k. map_of (request_cache self') k =
                (case (if map_of (request_cache self) (digest (messages nucleon)) \<noteq> None
                       then map_of (request_cache self)
                       else (map_of (request_cache self))(digest (messages nucleon) \<mapsto> block m)) k of
                   None \<Rightarrow> None
                 | Some b \<Rightarrow>
                     if b + blacklist_request_cache_block_span (config self) < block m
                     then None else Some b))"
proof (cases "map_of (request_cache self) (digest (messages nucleon)) = None")
  case True
  let ?c1 = "AList.update (digest (messages nucleon)) (block m) (request_cache self)"
  have d1: "distinct (map fst ?c1)" using dist by (rule AList.distinct_update)
  have notin: "digest (messages nucleon) \<notin> fst ` set (request_cache self)"
    using True by (simp add: map_of_eq_None_iff)
  show ?thesis
    by (simp add: is_request_in_cache_def Let_def map_of_sweep [OF d1]
        distinct_fold_delete [OF d1] AList.update_conv' True notin snap)
next
  case False
  have isin: "digest (messages nucleon) \<in> fst ` set (request_cache self)"
    using False by (simp add: map_of_eq_None_iff)
  show ?thesis
    by (simp add: is_request_in_cache_def Let_def map_of_sweep [OF dist]
        distinct_fold_delete [OF dist] False isin snap)
qed

subsection \<open>Facts about the tracker and the scorer\<close>

lemma record_request_timestamps_fields:
  "config (record_request_timestamps self t nucleon) = config self"
  "megastring (record_request_timestamps self t nucleon) = megastring self"
  "request_cache (record_request_timestamps self t nucleon) = request_cache self"
  by (simp_all add: record_request_timestamps_def Let_def)

lemma record_request_timestamps_other:
  "k \<noteq> hotkey nucleon \<Longrightarrow>
   request_timestamps (record_request_timestamps self t nucleon) k = request_timestamps self k"
  by (simp add: record_request_timestamps_def Let_def)

lemma record_request_timestamps_caller:
  "request_timestamps (record_request_timestamps self t nucleon) (hotkey nucleon)
     = Some (py_slice_from
               ((case request_timestamps self (hotkey nucleon) of
                   None \<Rightarrow> py_repeat 0 (priority_len_request_timestamps (config self))
                 | Some h \<Rightarrow> h) @ [t])
               (- priority_len_request_timestamps (config self)))"
  by (simp add: record_request_timestamps_def Let_def)

lemma record_request_timestamps_keeps_length:
  assumes inv: "\<forall>k h. request_timestamps self k = Some h \<longrightarrow>
                  int (length h) = priority_len_request_timestamps (config self)"
    and len: "1 \<le> priority_len_request_timestamps (config self)"
    and rec: "request_timestamps (record_request_timestamps self t nucleon) k = Some h"
  shows "int (length h) = priority_len_request_timestamps (config self)"
proof (cases "k = hotkey nucleon")
  case False
  with rec inv show ?thesis by (simp add: record_request_timestamps_other)
next
  case True
  show ?thesis
  proof (cases "request_timestamps self (hotkey nucleon)")
    case None
    with rec True len show ?thesis
      by (auto simp: record_request_timestamps_caller length_py_slice_last py_repeat_def)
  next
    case (Some h0)
    with inv have "int (length h0) = priority_len_request_timestamps (config self)" by simp
    with rec True len Some show ?thesis
      by (auto simp: record_request_timestamps_caller length_py_slice_last)
  qed
qed

lemma record_request_timestamps_creates:
  assumes "1 \<le> priority_len_request_timestamps (config self)"
    and "request_timestamps self (hotkey nucleon) = None"
  shows "request_timestamps (record_request_timestamps self t nucleon) (hotkey nucleon)
           = Some (replicate (nat (priority_len_request_timestamps (config self)) - 1) 0 @ [t])"
proof -
  obtain n where n: "nat (priority_len_request_timestamps (config self)) = Suc n"
    using assms(1) by (cases "nat (priority_len_request_timestamps (config self))") auto
  then have "int (Suc n) = priority_len_request_timestamps (config self)"
    using assms(1) by linarith
  then have "py_slice_from (replicate (Suc n) (0::real) @ [t])
               (- priority_len_request_timestamps (config self))
             = replicate n 0 @ [t]"
    using assms(1) by (simp add: py_slice_from_def)
  with n assms(2) show ?thesis
    by (simp add: record_request_timestamps_caller py_repeat_def)
qed

text \<open>On a full history the tracker drops the oldest entry and appends the new one.\<close>

lemma record_request_timestamps_shifts:
  assumes len: "1 \<le> priority_len_request_timestamps (config self)"
    and old: "request_timestamps self (hotkey nucleon) = Some h0"
    and full: "int (length h0) = priority_len_request_timestamps (config self)"
  shows "request_timestamps (record_request_timestamps self t nucleon) (hotkey nucleon)
           = Some (tl h0 @ [t])"
proof -
  from len full have ne: "h0 \<noteq> []" by auto
  have "nat (int (length (h0 @ [t])) - priority_len_request_timestamps (config self)) = 1"
    using full by simp
  with len have "py_slice_from (h0 @ [t]) (- priority_len_request_timestamps (config self))
                   = drop 1 (h0 @ [t])"
    by (simp add: py_slice_from_def)
  also have "\<dots> = tl h0 @ [t]" using ne by (cases h0) simp_all
  finally show ?thesis using old by (simp add: record_request_timestamps_caller)
qed

text \<open>As long as fewer requests have been recorded than the configured length, the
  history of a caller that started without one still has a sentinel zero in front.\<close>

lemma record_requests_config: "config (record_requests self ts nucleon) = config self"
  unfolding record_requests_def
  by (induction ts arbitrary: self) (simp_all add: record_request_timestamps_fields)

lemma record_requests_snoc:
  "record_requests self (ts @ [t]) nucleon
     = record_request_timestamps (record_requests self ts nucleon) t nucleon"
  by (simp add: record_requests_def)

lemma record_requests_history:
  assumes fresh: "request_timestamps self (hotkey nucleon) = None"
    and ne: "ts \<noteq> []"
    and few: "int (length ts) \<le> priority_len_request_timestamps (config self)"
  shows "request_timestamps (record_requests self ts nucleon) (hotkey nucleon)
           = Some (replicate (nat (priority_len_request_timestamps (config self)) - length ts) 0 @ ts)"
  using ne few
proof (induction ts rule: rev_nonempty_induct)
  case (single t)
  then have "1 \<le> priority_len_request_timestamps (config self)" by simp
  from record_request_timestamps_creates [OF this fresh, of t]
  show ?case by (simp add: record_requests_def)
next
  case (snoc t ts)
  let ?n = "priority_len_request_timestamps (config self)"
  from snoc.prems have lt: "int (length ts) < ?n" by simp
  then have le: "int (length ts) \<le> ?n" by simp
  from snoc.IH [OF le]
  have h: "request_timestamps (record_requests self ts nucleon) (hotkey nucleon)
             = Some (replicate (nat ?n - length ts) 0 @ ts)" .
  obtain d where d: "nat ?n - length ts = Suc d"
    using lt by (cases "nat ?n - length ts") auto
  then have d': "nat ?n - length (ts @ [t]) = d" by simp
  have len: "int (length (replicate (Suc d) (0::real) @ ts)) = ?n"
    using d lt by simp
  have "py_slice_from ((replicate (Suc d) (0::real) @ ts) @ [t]) (- ?n)
          = replicate d 0 @ ts @ [t]"
  proof -
    have "0 < ?n" using lt by simp
    moreover have "nat (int (length ((replicate (Suc d) (0::real) @ ts) @ [t])) - ?n) = 1"
      using len by simp
    ultimately show ?thesis by (simp add: py_slice_from_def)
  qed
  with h d d' show ?case
    by (simp add: record_requests_snoc record_request_timestamps_caller record_requests_config)
qed

lemma record_requests_sentinel:
  assumes "request_timestamps self (hotkey nucleon) = None"
    and "ts \<noteq> []"
    and "int (length ts) < priority_len_request_timestamps (config self)"
  shows "\<exists>h. request_timestamps (record_requests self ts nucleon) (hotkey nucleon) = Some h
           \<and> py_index h 0 = Inr 0"
proof -
  from assms(3) have le: "int (length ts) \<le> priority_len_request_timestamps (config self)"
    by simp
  obtain d where d: "nat (priority_len_request_timestamps (config self)) - length ts = Suc d"
    using assms(3) by (cases "nat (priority_len_request_timestamps (config self)) - length ts") auto
  from record_requests_history [OF assms(1,2) le] d show ?thesis
    by (simp add: py_index_def)
qed

lemma default_priority_unregistered:
  "megastring self = None \<or> (\<exists>m. megastring self = Some m \<and> hotkey nucleon \<notin> set (hotkeys m))
   \<Longrightarrow> default_priority self now now_rec nucleon = Inr (priority_default (config self), self)"
  by (auto simp: default_priority_def)

lemma default_priority_no_history:
  assumes "megastring self = Some m" "list_index (hotkeys m) (hotkey nucleon) = Inr uid"
    "uid < length (S m)" "request_timestamps self (hotkey nucleon) = None"
  shows "default_priority self now now_rec nucleon
           = Inr (priority_default (config self), record_request_timestamps self now_rec nucleon)"
  using assms list_index_first [OF assms(2)]
  by (simp add: default_priority_def py_index_nat)

lemma default_priority_history:
  assumes "megastring self = Some m" "list_index (hotkeys m) (hotkey nucleon) = Inr uid"
    "uid < length (S m)" "request_timestamps self (hotkey nucleon) = Some h"
    "10 \<le> length h" "priority_time_stake_multiplicate (config self) \<noteq> 0"
  shows "default_priority self now now_rec nucleon
           = Inr (max ((now - h ! (length h - 10))
                        / real_of_int (priority_time_stake_multiplicate (config self) * 60)) 1
                    * S m ! uid,
                  record_request_timestamps self now_rec nucleon)"
  using assms list_index_first [OF assms(2)]
  by (simp add: default_priority_def py_index_nat py_index_lookback)

lemma default_priority_keeps_length:
  assumes inv: "\<forall>k h. request_timestamps self k = Some h \<longrightarrow>
                  int (length h) = priority_len_request_timestamps (config self)"
    and len: "1 \<le> priority_len_request_timestamps (config self)"
    and run: "default_priority self now now_rec nucleon = Inr (p, self')"
  shows "config self' = config self
         \<and> (\<forall>k h. request_timestamps self' k = Some h \<longrightarrow>
                  int (length h) = priority_len_request_timestamps (config self'))"
proof -
  from run have "self' = self \<or> self' = record_request_timestamps self now_rec nucleon"
    by (auto simp: default_priority_def split: option.splits if_splits sum.splits)
  then show ?thesis
  proof
    assume "self' = self"
    with inv show ?thesis by simp
  next
    assume "self' = record_request_timestamps self now_rec nucleon"
    then show ?thesis
      using record_request_timestamps_keeps_length [OF inv len]
      by (simp add: record_request_timestamps_fields)
  qed
qed

subsection \<open>Facts about the admission rules and the dispatchers\<close>

lemma default_blacklist_reaches_request_period:
  assumes "hotkey nucleon \<notin> set (blacklist_whitelist (config self))"
    and "hotkey nucleon \<notin> set (blacklist_blacklist (config self))"
    and "blacklist_allow_non_registered (config self) \<or> megastring self = None
         \<or> (\<exists>m. megastring self = Some m \<and> hotkey nucleon \<in> set (hotkeys m))"
    and "\<not> blacklist_force_validator_permit (config self)
         \<or> (\<exists>m uid. megastring self = Some m
               \<and> list_index (hotkeys m) (hotkey nucleon) = Inr uid
               \<and> uid < length (validator_permit m) \<and> validator_permit m ! uid)"
  shows "default_blacklist self now nucleon = request_period_rule self now nucleon"
proof (cases "blacklist_force_validator_permit (config self)")
  case False
  with assms(1-3) show ?thesis by (auto simp: default_blacklist_def)
next
  case True
  with assms(4) obtain m uid where m: "megastring self = Some m"
    and u: "list_index (hotkeys m) (hotkey nucleon) = Inr uid"
    and p: "uid < length (validator_permit m)" "validator_permit m ! uid"
    by blast
  from list_index_first [OF u] have "hotkey nucleon \<in> set (hotkeys m)" by simp
  with assms(1,2) True m u p show ?thesis
    by (simp add: default_blacklist_def py_index_nat)
qed

lemma request_period_rule_rejects_iff:
  "(\<exists>r. request_period_rule self now nucleon = Inr (True, r))
     \<longleftrightarrow> (\<exists>h. request_timestamps self (hotkey nucleon) = Some h \<and> h \<noteq> []
              \<and> now - h ! 0 < real_of_int (blacklist_min_request_period (config self) * 60))"
proof (cases "request_timestamps self (hotkey nucleon)")
  case None
  then show ?thesis by (simp add: request_period_rule_def)
next
  case (Some h)
  show ?thesis
  proof (cases "h = []")
    case True
    with Some show ?thesis by (simp add: request_period_rule_def py_index_empty)
  next
    case False
    with Some show ?thesis by (simp add: request_period_rule_def py_index_oldest)
  qed
qed

lemma blacklist_fallback:
  assumes "func nucleon = Raises e \<or> func nucleon = Returns PyNone
           \<or> (\<exists>v. func nucleon = Returns v \<and> has_len v \<and> unpack_pair v = Inl ValueError)"
  shows "snd (blacklist self func now nucleon)
           = map_sum id as_pyval (default_blacklist self now nucleon)"
  using assms
  by (cases "default_blacklist self now nucleon"; cases e)
     (auto simp: blacklist_def Let_def split: sum.splits prod.splits)

lemma priority_fallback:
  assumes "func nucleon = Raises e \<or> func nucleon = Returns None"
  shows "priority self func now now_rec nucleon = default_priority self now now_rec nucleon"
  using assms
  by (cases "default_priority self now now_rec nucleon")
     (auto simp: priority_def Let_def split: sum.splits prod.splits if_splits)

text \<open>Conditions under which the default policy and the default scorer return rather
  than raise.\<close>

lemma request_period_rule_returns:
  assumes "\<forall>h. request_timestamps self (hotkey nucleon) = Some h \<longrightarrow> h \<noteq> []"
  shows "\<exists>b r. request_period_rule self now nucleon = Inr (b, r)"
proof (cases "request_timestamps self (hotkey nucleon)")
  case None
  then show ?thesis by (auto simp: request_period_rule_def)
next
  case (Some h)
  with assms have "h \<noteq> []" by simp
  with Some show ?thesis by (auto simp: request_period_rule_def py_index_oldest)
qed

lemma default_blacklist_returns:
  assumes permit: "\<not> blacklist_force_validator_permit (config self)
        \<or> (\<exists>m. megastring self = Some m \<and> length (validator_permit m) = length (hotkeys m))"
    and hist: "\<forall>h. request_timestamps self (hotkey nucleon) = Some h \<longrightarrow> h \<noteq> []"
  shows "\<exists>b r. default_blacklist self now nucleon = Inr (b, r)"
proof (cases "blacklist_force_validator_permit (config self)")
  case False
  with request_period_rule_returns [OF hist, of now] show ?thesis
    by (auto simp: default_blacklist_def)
next
  case True
  with permit obtain m where m: "megastring self = Some m"
    and al: "length (validator_permit m) = length (hotkeys m)" by blast
  show ?thesis
  proof (cases "hotkey nucleon \<in> set (hotkeys m)")
    case False
    with True m show ?thesis by (auto simp: default_blacklist_def)
  next
    case reg: True
    from list_index_mem [OF reg] obtain uid where
      u: "list_index (hotkeys m) (hotkey nucleon) = Inr uid" "uid < length (hotkeys m)" by blast
    with al have "py_index (validator_permit m) (int uid) = Inr (validator_permit m ! uid)"
      by (simp add: py_index_nat)
    with True m reg u request_period_rule_returns [OF hist, of now] show ?thesis
      by (auto simp: default_blacklist_def)
  qed
qed

lemma default_priority_returns:
  assumes stake: "\<forall>m. megastring self = Some m \<longrightarrow> length (S m) = length (hotkeys m)"
    and hist: "\<forall>h. request_timestamps self (hotkey nucleon) = Some h \<longrightarrow>
                 10 \<le> length h \<and> priority_time_stake_multiplicate (config self) \<noteq> 0"
  shows "\<exists>p self'. default_priority self now now_rec nucleon = Inr (p, self')"
proof (cases "megastring self")
  case None
  then show ?thesis by (simp add: default_priority_def)
next
  case (Some m)
  show ?thesis
  proof (cases "hotkey nucleon \<in> set (hotkeys m)")
    case False
    with Some show ?thesis by (simp add: default_priority_def)
  next
    case True
    from list_index_mem [OF True] obtain uid where
      u: "list_index (hotkeys m) (hotkey nucleon) = Inr uid" "uid < length (hotkeys m)" by blast
    with stake Some have st: "uid < length (S m)" by simp
    show ?thesis
    proof (cases "request_timestamps self (hotkey nucleon)")
      case None
      from default_priority_no_history [OF Some u(1) st None] show ?thesis by simp
    next
      case h: (Some h)
      with hist have "10 \<le> length h" "priority_time_stake_multiplicate (config self) \<noteq> 0"
        by simp_all
      from default_priority_history [OF Some u(1) st h this] show ?thesis by simp
    qed
  qed
qed

subsection \<open>Claim C1: order of the admission rules\<close>

text \<open>
  Claim C1. The default admission policy tests its rules in the order whitelist, blacklist,
  registration, validator permit, request period, and the first rule that matches
  decides. A caller on the whitelist is accepted with reason "whitelisted hotkey" whatever
  the rest of the state is. A caller on the blacklist and not on the whitelist is rejected
  with reason "blacklisted hotkey". For a caller on neither list: with non-registered
  callers disallowed and a snapshot that lacks the caller, the request is rejected with
  "hotkey not registered"; past that rule, a forced validator permit rejects the caller
  that the snapshot lacks or that holds no permit; and a request that none of these four
  rules decides is decided by the request-period rule alone.
\<close>

theorem default_blacklist_first_match:
  "(hotkey nucleon \<in> set (blacklist_whitelist (config self)) \<longrightarrow>
      default_blacklist self now nucleon = Inr (False, ''whitelisted hotkey''))
   \<and> (hotkey nucleon \<notin> set (blacklist_whitelist (config self))
        \<and> hotkey nucleon \<in> set (blacklist_blacklist (config self)) \<longrightarrow>
      default_blacklist self now nucleon = Inr (True, ''blacklisted hotkey''))
   \<and> (hotkey nucleon \<notin> set (blacklist_whitelist (config self))
        \<and> hotkey nucleon \<notin> set (blacklist_blacklist (config self))
        \<and> \<not> blacklist_allow_non_registered (config self)
        \<and> megastring self = Some m \<and> hotkey nucleon \<notin> set (hotkeys m) \<longrightarrow>
      default_blacklist self now nucleon = Inr (True, ''hotkey not registered''))
   \<and> (hotkey nucleon \<notin> set (blacklist_whitelist (config self))
        \<and> hotkey nucleon \<notin> set (blacklist_blacklist (config self))
        \<and> blacklist_allow_non_registered (config self)
        \<and> blacklist_force_validator_permit (config self)
        \<and> megastring self = Some m \<and> hotkey nucleon \<notin> set (hotkeys m) \<longrightarrow>
      default_blacklist self now nucleon
        = Inr (True, ''validator permit required, but hotkey not registered''))
   \<and> (hotkey nucleon \<notin> set (blacklist_whitelist (config self))
        \<and> hotkey nucleon \<notin> set (blacklist_blacklist (config self))
        \<and> blacklist_force_validator_permit (config self)
        \<and> megastring self = Some m \<and> list_index (hotkeys m) (hotkey nucleon) = Inr uid
        \<and> uid < length (validator_permit m) \<and> \<not> validator_permit m ! uid \<longrightarrow>
      default_blacklist self now nucleon = Inr (True, ''validator permit required''))
   \<and> (hotkey nucleon \<notin> set (blacklist_whitelist (config self))
        \<and> hotkey nucleon \<notin> set (blacklist_blacklist (config self))
        \<and> (blacklist_allow_non_registered (config self) \<or> megastring self = None
             \<or> (\<exists>m'. megastring self = Some m' \<and> hotkey nucleon \<in> set (hotkeys m')))
        \<and> (\<not> blacklist_force_validator_permit (config self)
             \<or> (\<exists>m' uid'. megastring self = Some m'
                   \<and> list_index (hotkeys m') (hotkey nucleon) = Inr uid'
                   \<and> uid' < length (validator_permit m') \<and> validator_permit m' ! uid')) \<longrightarrow>
      default_blacklist self now nucleon = request_period_rule self now nucleon)"
proof (intro conjI impI)
  assume a: "hotkey nucleon \<notin> set (blacklist_whitelist (config self))
        \<and> hotkey nucleon \<notin> set (blacklist_blacklist (config self))
        \<and> blacklist_force_validator_permit (config self)
        \<and> megastring self = Some m \<and> list_index (hotkeys m) (hotkey nucleon) = Inr uid
        \<and> uid < length (validator_permit m) \<and> \<not> validator_permit m ! uid"
  then have "hotkey nucleon \<in> set (hotkeys m)" using list_index_first by fastforce
  with a show "default_blacklist self now nucleon = Inr (True, ''validator permit required'')"
    by (simp add: default_blacklist_def py_index_nat)
next
  assume "hotkey nucleon \<notin> set (blacklist_whitelist (config self))
        \<and> hotkey nucleon \<notin> set (blacklist_blacklist (config self))
        \<and> (blacklist_allow_non_registered (config self) \<or> megastring self = None
             \<or> (\<exists>m'. megastring self = Some m' \<and> hotkey nucleon \<in> set (hotkeys m')))
        \<and> (\<not> blacklist_force_validator_permit (config self)
             \<or> (\<exists>m' uid'. megastring self = Some m'
                   \<and> list_index (hotkeys m') (hotkey nucleon) = Inr uid'
                   \<and> uid' < length (validator_permit m') \<and> validator_permit m' ! uid'))"
  then show "default_blacklist self now nucleon = request_period_rule self now nucleon"
    by (intro default_blacklist_reaches_request_period) blast+
qed (simp_all add: default_blacklist_def)

text \<open>
  One request per rule: \<open>alice\<close> is on both lists and is accepted, \<open>mallory\<close> is on the
  blacklist only, \<open>carol\<close> is unknown to the snapshot, \<open>bob\<close> is registered without a permit.
\<close>

theorem default_blacklist_first_match_witness:
  "default_blacklist (fresh_miner listed_config (Some example_megastring)) 0
       (request_from ''alice'') = Inr (False, ''whitelisted hotkey'')
   \<and> default_blacklist (fresh_miner listed_config (Some example_megastring)) 0
       (request_from ''mallory'') = Inr (True, ''blacklisted hotkey'')
   \<and> default_blacklist (fresh_miner listed_config (Some example_megastring)) 0
       (request_from ''carol'') = Inr (True, ''hotkey not registered'')
   \<and> default_blacklist
       (fresh_miner (default_config\<lparr>blacklist_allow_non_registered := True,
                                    blacklist_force_validator_permit := True\<rparr>)
          (Some example_megastring)) 0
       (request_from ''carol'') = Inr (True, ''validator permit required, but hotkey not registered'')
   \<and> default_blacklist
       (fresh_miner (default_config\<lparr>blacklist_force_validator_permit := True\<rparr>)
          (Some example_megastring)) 0
       (request_from ''bob'') = Inr (True, ''validator permit required'')
   \<and> default_blacklist (fresh_miner default_config (Some example_megastring)) 0
       (request_from ''bob'') = Inr (False, ''passed blacklist'')"
  using default_blacklist_first_match
          [of "request_from ''alice''" "fresh_miner listed_config (Some example_megastring)" 0
              example_megastring 0]
        default_blacklist_first_match
          [of "request_from ''mallory''" "fresh_miner listed_config (Some example_megastring)" 0
              example_megastring 0]
        default_blacklist_first_match
          [of "request_from ''carol''" "fresh_miner listed_config (Some example_megastring)" 0
              example_megastring 0]
        default_blacklist_first_match
          [of "request_from ''carol''"
              "fresh_miner (default_config\<lparr>blacklist_allow_non_registered := True,
                                    blacklist_force_validator_permit := True\<rparr>)
                 (Some example_megastring)" 0 example_megastring 0]
        default_blacklist_first_match
          [of "request_from ''bob''"
              "fresh_miner (default_config\<lparr>blacklist_force_validator_permit := True\<rparr>)
                 (Some example_megastring)" 0 example_megastring 1]
        default_blacklist_first_match
          [of "request_from ''bob''" "fresh_miner default_config (Some example_megastring)" 0
              example_megastring 1]
  by (simp add: fresh_miner_def listed_config_def default_config_def request_from_def
      example_megastring_def request_period_rule_def)

subsection \<open>Claim C2: the deduplication cache\<close>

text \<open>
  Claim C2. With a snapshot present and a cache whose keys are distinct (a dictionary),
  \<open>is_request_in_cache\<close> returns \<open>True\<close> exactly when the fingerprint of the payload is a key
  of the cache before the call. The cache after the call is the cache before it, extended
  by fingerprint \<open>\<mapsto>\<close> current block when the fingerprint was absent, and then swept:
  every entry with \<open>block + span < current block\<close> is gone and every other entry is kept, on
  a hit as on a miss. With a non-negative span the entry just inserted survives the sweep.
  An entry of the fingerprint that is older than the span is purged by the call, and the
  next call with the same payload, at whatever block, reports it as new.
\<close>

theorem is_request_in_cache_sweeps:
  assumes snap: "megastring self = Some m"
    and dist: "distinct (map fst (request_cache self))"
  shows "\<exists>self'. is_request_in_cache digest self nucleon
             = Inr (map_of (request_cache self) (digest (messages nucleon)) \<noteq> None, self')
          \<and> (\<forall>k. map_of (request_cache self') k =
                (case (if map_of (request_cache self) (digest (messages nucleon)) \<noteq> None
                       then map_of (request_cache self)
                       else (map_of (request_cache self))(digest (messages nucleon) \<mapsto> block m)) k of
                   None \<Rightarrow> None
                 | Some b \<Rightarrow>
                     if b + blacklist_request_cache_block_span (config self) < block m
                     then None else Some b))
          \<and> (map_of (request_cache self) (digest (messages nucleon)) = None
               \<and> 0 \<le> blacklist_request_cache_block_span (config self) \<longrightarrow>
               map_of (request_cache self') (digest (messages nucleon)) = Some (block m))
          \<and> (\<forall>b m2. map_of (request_cache self) (digest (messages nucleon)) = Some b
                 \<and> b + blacklist_request_cache_block_span (config self) < block m \<longrightarrow>
               map_of (request_cache self') (digest (messages nucleon)) = None
               \<and> (\<exists>self''. is_request_in_cache digest (self'\<lparr>megastring := Some m2\<rparr>) nucleon
                               = Inr (False, self'')))"
proof -
  from is_request_in_cache_result [OF snap dist, of digest nucleon]
  obtain self' where
    res: "is_request_in_cache digest self nucleon
            = Inr (map_of (request_cache self) (digest (messages nucleon)) \<noteq> None, self')"
    and d': "distinct (map fst (request_cache self'))"
    and sw: "\<forall>k. map_of (request_cache self') k =
                (case (if map_of (request_cache self) (digest (messages nucleon)) \<noteq> None
                       then map_of (request_cache self)
                       else (map_of (request_cache self))(digest (messages nucleon) \<mapsto> block m)) k of
                   None \<Rightarrow> None
                 | Some b \<Rightarrow>
                     if b + blacklist_request_cache_block_span (config self) < block m
                     then None else Some b)"
    by blast
  have ins: "map_of (request_cache self') (digest (messages nucleon)) = Some (block m)"
    if "map_of (request_cache self) (digest (messages nucleon)) = None"
      and "0 \<le> blacklist_request_cache_block_span (config self)"
    using that sw by simp
  have purge: "map_of (request_cache self') (digest (messages nucleon)) = None
               \<and> (\<exists>self''. is_request_in_cache digest (self'\<lparr>megastring := Some m2\<rparr>) nucleon
                               = Inr (False, self''))"
    if old: "map_of (request_cache self) (digest (messages nucleon)) = Some b"
      and ex: "b + blacklist_request_cache_block_span (config self) < block m"
    for b m2
  proof -
    have gone: "map_of (request_cache self') (digest (messages nucleon)) = None"
      using old ex sw by simp
    have "megastring (self'\<lparr>megastring := Some m2\<rparr>) = Some m2" by simp
    moreover have "distinct (map fst (request_cache (self'\<lparr>megastring := Some m2\<rparr>)))"
      using d' by simp
    ultimately obtain self'' where
      "is_request_in_cache digest (self'\<lparr>megastring := Some m2\<rparr>) nucleon
         = Inr (map_of (request_cache (self'\<lparr>megastring := Some m2\<rparr>))
                  (digest (messages nucleon)) \<noteq> None, self'')"
      using is_request_in_cache_result by blast
    with gone show ?thesis by simp
  qed
  show ?thesis
  proof (rule exI [of _ self'], intro conjI allI impI)
    show "is_request_in_cache digest self nucleon
            = Inr (map_of (request_cache self) (digest (messages nucleon)) \<noteq> None, self')"
      by (rule res)
  next
    fix k
    show "map_of (request_cache self') k =
                (case (if map_of (request_cache self) (digest (messages nucleon)) \<noteq> None
                       then map_of (request_cache self)
                       else (map_of (request_cache self))(digest (messages nucleon) \<mapsto> block m)) k of
                   None \<Rightarrow> None
                 | Some b \<Rightarrow>
                     if b + blacklist_request_cache_block_span (config self) < block m
                     then None else Some b)"
      using sw by (rule spec)
  next
    assume "map_of (request_cache self) (digest (messages nucleon)) = None
               \<and> 0 \<le> blacklist_request_cache_block_span (config self)"
    then show "map_of (request_cache self') (digest (messages nucleon)) = Some (block m)"
      using ins by blast
  next
    fix b m2
    assume "map_of (request_cache self) (digest (messages nucleon)) = Some b
                 \<and> b + blacklist_request_cache_block_span (config self) < block m"
    then show "map_of (request_cache self') (digest (messages nucleon)) = None"
      using purge by blast
  next
    fix b m2
    assume "map_of (request_cache self) (digest (messages nucleon)) = Some b
                 \<and> b + blacklist_request_cache_block_span (config self) < block m"
    then show "\<exists>self''. is_request_in_cache digest (self'\<lparr>megastring := Some m2\<rparr>) nucleon
                               = Inr (False, self'')"
      using purge by blast
  qed
qed

text \<open>
  At block 9000 with the default span of 7200 blocks, the entry first seen at block 10 is
  reported as a duplicate once more and purged, the entry of block 8000 is kept; the next
  call with the same payload reports a new request and inserts it at block 9000.
\<close>

theorem is_request_in_cache_sweeps_witness:
  "is_request_in_cache concat cached_miner (request_from ''alice'')
     = Inr (True, cached_miner\<lparr>request_cache := [(''other'', 8000)]\<rparr>)
   \<and> is_request_in_cache concat (cached_miner\<lparr>request_cache := [(''other'', 8000)]\<rparr>)
        (request_from ''alice'')
     = Inr (False, cached_miner\<lparr>request_cache := [(''other'', 8000), (''hello'', 9000)]\<rparr>)"
  using is_request_in_cache_sweeps [of cached_miner "example_megastring\<lparr>block := 9000\<rparr>" concat
      "request_from ''alice''"]
  by (simp add: cached_miner_def default_config_def example_megastring_def request_from_def
      is_request_in_cache_def Let_def AList.delete_eq AList.update_def)

subsection \<open>Claim C3: a missing snapshot under a forced validator permit\<close>

text \<open>
  Claim C3 states that the admission entry point never lets an exception reach its caller,
  also when \<^verbatim>\<open>force_validator_permit\<close> is set and the snapshot is absent. The code does
  otherwise. The registration rule (line 70) and the scorer (line 41) both test
  \<^verbatim>\<open>self.megastring is not None\<close>; the validator-permit rule (line 77) does not, and reads
  \<^verbatim>\<open>self.megastring.hotkeys\<close> of \<^verbatim>\<open>None\<close>. For a caller on neither list the default policy
  raises \<open>AttributeError\<close>. In the dispatcher the override's \<open>NotImplementedError\<close> is caught,
  the default policy raises inside the handler, the \<^verbatim>\<open>finally\<close> block finds
  \<^verbatim>\<open>does_blacklist\<close> still \<^verbatim>\<open>None\<close>, calls the default policy a second time, and the
  exception raised there reaches the caller.
\<close>

theorem blacklist_raises_without_snapshot:
  "default_blacklist
       (fresh_miner (default_config\<lparr>blacklist_force_validator_permit := True\<rparr>) None)
       0 (request_from ''alice'') = Inl AttributeError
   \<and> blacklist
       (fresh_miner (default_config\<lparr>blacklist_force_validator_permit := True\<rparr>) None)
       (\<lambda>_. Raises NotImplementedError) 0 (request_from ''alice'')
     = (2, Inl AttributeError)"
  by (simp add: blacklist_def default_blacklist_def fresh_miner_def default_config_def request_from_def)

subsection \<open>Claim C4: the value of the default priority\<close>

text \<open>
  Claim C4. The default scorer returns the configured default priority, and leaves the
  miner unchanged, when the snapshot is absent or does not list the caller. For a caller
  listed at position \<open>uid\<close> of a snapshot whose stake vector is as long as its identity list:
  without a stored history the score is the configured default priority; with a history
  \<open>h\<close> of the configured length \<open>N \<ge> 10\<close> and a non-zero doubling period the score is
  \<open>max ((now - h[N - 10]) / (time_stake_multiplicate * 60)) 1 * S[uid]\<close>.
\<close>

theorem default_priority_value:
  "(megastring self = None
      \<or> (\<exists>m'. megastring self = Some m' \<and> hotkey nucleon \<notin> set (hotkeys m')) \<longrightarrow>
      default_priority self now now_rec nucleon = Inr (priority_default (config self), self))
   \<and> (megastring self = Some m \<and> list_index (hotkeys m) (hotkey nucleon) = Inr uid
        \<and> length (S m) = length (hotkeys m)
        \<and> request_timestamps self (hotkey nucleon) = None \<longrightarrow>
      map_sum id fst (default_priority self now now_rec nucleon)
        = Inr (priority_default (config self)))
   \<and> (megastring self = Some m \<and> list_index (hotkeys m) (hotkey nucleon) = Inr uid
        \<and> length (S m) = length (hotkeys m)
        \<and> request_timestamps self (hotkey nucleon) = Some h
        \<and> int (length h) = priority_len_request_timestamps (config self)
        \<and> 10 \<le> priority_len_request_timestamps (config self)
        \<and> priority_time_stake_multiplicate (config self) \<noteq> 0 \<longrightarrow>
      map_sum id fst (default_priority self now now_rec nucleon)
        = Inr (max ((now - h ! nat (priority_len_request_timestamps (config self) - 10))
                      / real_of_int (priority_time_stake_multiplicate (config self) * 60)) 1
                 * S m ! uid))"
proof (intro conjI impI)
  assume "megastring self = None
      \<or> (\<exists>m'. megastring self = Some m' \<and> hotkey nucleon \<notin> set (hotkeys m'))"
  then show "default_priority self now now_rec nucleon = Inr (priority_default (config self), self)"
    by (rule default_priority_unregistered)
next
  assume a: "megastring self = Some m \<and> list_index (hotkeys m) (hotkey nucleon) = Inr uid
        \<and> length (S m) = length (hotkeys m)
        \<and> request_timestamps self (hotkey nucleon) = None"
  then have "uid < length (S m)" using list_index_first by fastforce
  with a show "map_sum id fst (default_priority self now now_rec nucleon)
        = Inr (priority_default (config self))"
    by (simp add: default_priority_no_history)
next
  assume a: "megastring self = Some m \<and> list_index (hotkeys m) (hotkey nucleon) = Inr uid
        \<and> length (S m) = length (hotkeys m)
        \<and> request_timestamps self (hotkey nucleon) = Some h
        \<and> int (length h) = priority_len_request_timestamps (config self)
        \<and> 10 \<le> priority_len_request_timestamps (config self)
        \<and> priority_time_stake_multiplicate (config self) \<noteq> 0"
  then have u: "uid < length (S m)" using list_index_first by fastforce
  from a have l: "10 \<le> length h" by linarith
  from a have e: "nat (priority_len_request_timestamps (config self) - 10) = length h - 10"
    by linarith
  from a u l show "map_sum id fst (default_priority self now now_rec nucleon)
        = Inr (max ((now - h ! nat (priority_len_request_timestamps (config self) - 10))
                      / real_of_int (priority_time_stake_multiplicate (config self) * 60)) 1
                 * S m ! uid)"
    unfolding e by (simp add: default_priority_history)
qed

text \<open>
  Stake 10, a history of fifty requests at time 1000, the clock at 7000 and the default
  doubling period of ten minutes: the scale is 6000 / 600 = 10 and the score is 100.
  \<open>carol\<close> is not registered, \<open>bob\<close> is registered with no history; both score the default 0.
\<close>

theorem default_priority_value_witness:
  "map_sum id fst (default_priority busy_miner 7000 7001 (request_from ''alice'')) = Inr 100
   \<and> default_priority busy_miner 7000 7001 (request_from ''carol'') = Inr (0, busy_miner)
   \<and> map_sum id fst (default_priority (fresh_miner default_config (Some example_megastring))
        7000 7001 (request_from ''bob'')) = Inr 0"
  using default_priority_value
          [of busy_miner "request_from ''alice''" 7000 7001 example_megastring 0
              "replicate 50 1000"]
        default_priority_value
          [of busy_miner "request_from ''carol''" 7000 7001 example_megastring 0
              "replicate 50 1000"]
        default_priority_value
          [of "fresh_miner default_config (Some example_megastring)" "request_from ''bob''"
              7000 7001 example_megastring 1 "[]"]
  by (simp add: busy_miner_def fresh_miner_def default_config_def example_megastring_def
      request_from_def)

subsection \<open>Claim C5: when the scorer records the request\<close>

text \<open>
  Claim C5 as stated, that every call of the default scorer leaves the caller with a
  history holding the current time, also for unregistered callers, fails on the code: for
  a caller the snapshot does not list, and for any caller while the snapshot is absent,
  the function returns at line 46 and the tracker is never reached. Below, \<open>carol\<close> is
  unknown to the snapshot and \<open>alice\<close> is scored without a snapshot; each call returns
  the miner it was given, in which the caller has no history.
\<close>

theorem default_priority_skips_unregistered:
  "default_priority (fresh_miner default_config (Some example_megastring)) 7 8
       (request_from ''carol'')
     = Inr (0, fresh_miner default_config (Some example_megastring))
   \<and> request_timestamps (fresh_miner default_config (Some example_megastring)) ''carol'' = None
   \<and> default_priority (fresh_miner default_config None) 7 8 (request_from ''alice'')
     = Inr (0, fresh_miner default_config None)
   \<and> request_timestamps (fresh_miner default_config None) ''alice'' = None"
  by (simp add: default_priority_def fresh_miner_def default_config_def example_megastring_def
      request_from_def)

text \<open>
  Claim C5, amended. For every registered caller (snapshot present and listing the
  caller, with a stake entry at its position), a configured history length that is not
  negative, and a stored history, if any, that is long enough for the lookback with a
  non-zero doubling period: the default scorer returns a score, and in the miner it
  returns the caller has a history whose newest entry is the clock reading taken by the
  tracker. This covers the registered caller with no prior history. For a caller that
  the snapshot does not list, and for every caller while the snapshot is absent, the
  scorer returns the default priority and the miner as it was: nothing is recorded.
\<close>

theorem default_priority_records_registered:
  "(megastring self = Some m
      \<and> list_index (hotkeys m) (hotkey nucleon) = Inr uid
      \<and> uid < length (S m)
      \<and> 0 \<le> priority_len_request_timestamps (config self)
      \<and> (\<forall>h0. request_timestamps self (hotkey nucleon) = Some h0 \<longrightarrow>
             10 \<le> length h0 \<and> priority_time_stake_multiplicate (config self) \<noteq> 0) \<longrightarrow>
      (\<exists>p self' h. default_priority self now now_rec nucleon = Inr (p, self')
           \<and> request_timestamps self' (hotkey nucleon) = Some h
           \<and> h \<noteq> [] \<and> last h = now_rec))
   \<and> (megastring self = None
        \<or> (\<exists>m'. megastring self = Some m' \<and> hotkey nucleon \<notin> set (hotkeys m')) \<longrightarrow>
      default_priority self now now_rec nucleon = Inr (priority_default (config self), self))"
proof (intro conjI impI)
  assume a: "megastring self = Some m
      \<and> list_index (hotkeys m) (hotkey nucleon) = Inr uid
      \<and> uid < length (S m)
      \<and> 0 \<le> priority_len_request_timestamps (config self)
      \<and> (\<forall>h0. request_timestamps self (hotkey nucleon) = Some h0 \<longrightarrow>
             10 \<le> length h0 \<and> priority_time_stake_multiplicate (config self) \<noteq> 0)"
  then have snap: "megastring self = Some m"
    and uid: "list_index (hotkeys m) (hotkey nucleon) = Inr uid"
    and stake: "uid < length (S m)"
    and len: "0 \<le> priority_len_request_timestamps (config self)"
    and hist: "\<forall>h0. request_timestamps self (hotkey nucleon) = Some h0 \<longrightarrow>
                 10 \<le> length h0 \<and> priority_time_stake_multiplicate (config self) \<noteq> 0"
    by simp_all
  show "\<exists>p self' h. default_priority self now now_rec nucleon = Inr (p, self')
           \<and> request_timestamps self' (hotkey nucleon) = Some h
           \<and> h \<noteq> [] \<and> last h = now_rec"
  proof (cases "request_timestamps self (hotkey nucleon)")
    case None
    from default_priority_no_history [OF snap uid stake None]
    show ?thesis
      using last_py_slice_last [OF len]
      by (simp add: record_request_timestamps_caller)
  next
    case (Some h0)
    with hist have "10 \<le> length h0" "priority_time_stake_multiplicate (config self) \<noteq> 0"
      by simp_all
    from default_priority_history [OF snap uid stake Some this]
    show ?thesis
      using last_py_slice_last [OF len]
      by (simp add: record_request_timestamps_caller)
  qed
next
  assume "megastring self = None
        \<or> (\<exists>m'. megastring self = Some m' \<and> hotkey nucleon \<notin> set (hotkeys m'))"
  then show "default_priority self now now_rec nucleon
               = Inr (priority_default (config self), self)"
    by (rule default_priority_unregistered)
qed

text \<open>
  \<open>bob\<close> is registered and has no history, \<open>alice\<close> is registered with a full one; after
  the call the newest entry of either history is the tracker's clock reading 7001.
\<close>

theorem default_priority_records_registered_witness:
  "map_sum id (\<lambda>r. map_option last (request_timestamps (snd r) ''bob''))
     (default_priority (fresh_miner default_config (Some example_megastring))
        7000 7001 (request_from ''bob'')) = Inr (Some 7001)
   \<and> map_sum id (\<lambda>r. map_option last (request_timestamps (snd r) ''alice''))
     (default_priority busy_miner 7000 7001 (request_from ''alice'')) = Inr (Some 7001)"
  using default_priority_records_registered
          [of "fresh_miner default_config (Some example_megastring)" example_megastring
              "request_from ''bob''" 1 7000 7001]
        default_priority_records_registered
          [of busy_miner example_megastring "request_from ''alice''" 0 7000 7001]
  by (auto simp: fresh_miner_def busy_miner_def default_config_def example_megastring_def
      request_from_def)

subsection \<open>Claim C6: an override that fails falls back to the default\<close>

text \<open>
  Claim C6 as stated ends with: in all cases a well-formed result is produced through the
  fallback. That fails on the code, because the fallback itself can raise and the
  \<^verbatim>\<open>finally\<close> block lets that exception reach the caller. With a configured history
  length of 5 the default scorer's lookback \<^verbatim>\<open>[-10]\<close> raises \<open>IndexError\<close> on the caller's
  second request, and so does the priority dispatcher, for an override that raises as for
  one that returns \<^verbatim>\<open>None\<close>. With a forced validator permit and no snapshot the default
  admission policy raises \<open>AttributeError\<close>, and so does the admission dispatcher.
\<close>

theorem override_fallback_counterexample:
  "priority
      (record_request_timestamps
         (fresh_miner (default_config\<lparr>priority_len_request_timestamps := 5\<rparr>)
            (Some example_megastring))
         8 (request_from ''alice''))
      (\<lambda>_. Raises NotImplementedError) 9 10 (request_from ''alice'') = Inl IndexError
   \<and> priority
      (record_request_timestamps
         (fresh_miner (default_config\<lparr>priority_len_request_timestamps := 5\<rparr>)
            (Some example_megastring))
         8 (request_from ''alice''))
      (\<lambda>_. Returns None) 9 10 (request_from ''alice'') = Inl IndexError
   \<and> snd (blacklist
       (fresh_miner (default_config\<lparr>blacklist_force_validator_permit := True\<rparr>) None)
       (\<lambda>_. Raises RuntimeError) 0 (request_from ''alice'')) = Inl AttributeError
   \<and> snd (blacklist
       (fresh_miner (default_config\<lparr>blacklist_force_validator_permit := True\<rparr>) None)
       (\<lambda>_. Returns PyNone) 0 (request_from ''alice'')) = Inl AttributeError"
  by (simp add: priority_def blacklist_def default_blacklist_def record_request_timestamps_def
      default_priority_def fresh_miner_def default_config_def example_megastring_def
      request_from_def py_repeat_def py_slice_from_def py_index_def Let_def eval_nat_numeral)

text \<open>
  Claim C6, amended. If the custom admission function raises (whatever the exception),
  returns \<^verbatim>\<open>None\<close>, or returns a sized value that does not unpack into two (an empty
  tuple, say), the dispatcher's outcome is the outcome of the default admission policy on
  the same state, clock and request: the same pair, or the same exception where the
  default policy itself raises. If the custom priority function raises or returns
  \<^verbatim>\<open>None\<close>, the priority dispatcher's outcome, score and updated miner alike, is that of
  the default scorer. The outcome is a well-formed result wherever the fallback returns
  one, and it does so under these conditions. Admission: the validator permit is not
  forced, or a snapshot is present with a permit entry for every identity; and the
  caller's history, if any, is not empty. Priority: a snapshot, if present, has a stake
  entry for every identity; and the caller's history, if any, has at least ten entries
  with a non-zero doubling period.
\<close>

theorem override_fallback:
  assumes "func nucleon = Raises e \<or> func nucleon = Returns PyNone
           \<or> (\<exists>v. func nucleon = Returns v \<and> has_len v \<and> unpack_pair v = Inl ValueError)"
    and "pfunc nucleon = Raises e' \<or> pfunc nucleon = Returns None"
  shows "snd (blacklist self func now nucleon)
           = map_sum id as_pyval (default_blacklist self now nucleon)
       \<and> priority self pfunc now now_rec nucleon = default_priority self now now_rec nucleon
       \<and> ((\<not> blacklist_force_validator_permit (config self)
              \<or> (\<exists>m. megastring self = Some m
                    \<and> length (validator_permit m) = length (hotkeys m)))
            \<and> (\<forall>h. request_timestamps self (hotkey nucleon) = Some h \<longrightarrow> h \<noteq> []) \<longrightarrow>
           (\<exists>b r. default_blacklist self now nucleon = Inr (b, r)
                 \<and> snd (blacklist self func now nucleon) = Inr (PyBool b, PyStr r)))
       \<and> ((\<forall>m. megastring self = Some m \<longrightarrow> length (S m) = length (hotkeys m))
            \<and> (\<forall>h. request_timestamps self (hotkey nucleon) = Some h \<longrightarrow>
                   10 \<le> length h \<and> priority_time_stake_multiplicate (config self) \<noteq> 0) \<longrightarrow>
           (\<exists>p self'. default_priority self now now_rec nucleon = Inr (p, self')
                 \<and> priority self pfunc now now_rec nucleon = Inr (p, self')))"
proof (intro conjI impI)
  show eq: "snd (blacklist self func now nucleon)
           = map_sum id as_pyval (default_blacklist self now nucleon)"
    using assms(1) blacklist_fallback [of func nucleon e self now] by simp
  show peq: "priority self pfunc now now_rec nucleon = default_priority self now now_rec nucleon"
    using assms(2) priority_fallback [of pfunc nucleon e' self now now_rec] by simp
  {
    assume "(\<not> blacklist_force_validator_permit (config self)
              \<or> (\<exists>m. megastring self = Some m
                    \<and> length (validator_permit m) = length (hotkeys m)))
            \<and> (\<forall>h. request_timestamps self (hotkey nucleon) = Some h \<longrightarrow> h \<noteq> [])"
    then obtain b r where "default_blacklist self now nucleon = Inr (b, r)"
      using default_blacklist_returns [of self nucleon now] by blast
    with eq show "\<exists>b r. default_blacklist self now nucleon = Inr (b, r)
                 \<and> snd (blacklist self func now nucleon) = Inr (PyBool b, PyStr r)"
      by simp
  }
  {
    assume "(\<forall>m. megastring self = Some m \<longrightarrow> length (S m) = length (hotkeys m))
            \<and> (\<forall>h. request_timestamps self (hotkey nucleon) = Some h \<longrightarrow>
                   10 \<le> length h \<and> priority_time_stake_multiplicate (config self) \<noteq> 0)"
    then obtain p self' where "default_priority self now now_rec nucleon = Inr (p, self')"
      using default_priority_returns [of self nucleon now now_rec] by blast
    with peq show "\<exists>p self'. default_priority self now now_rec nucleon = Inr (p, self')
                 \<and> priority self pfunc now now_rec nucleon = Inr (p, self')"
      by simp
  }
qed

text \<open>
  An admission override that raises \<open>RuntimeError\<close> for registered \<open>alice\<close>, a priority
  override that raises \<open>NotImplementedError\<close> for unregistered \<open>carol\<close>, an admission
  override that returns the empty tuple for \<open>alice\<close> within her request window, and a
  priority override that returns \<^verbatim>\<open>None\<close>.
\<close>

theorem override_fallback_witness:
  "snd (blacklist (fresh_miner default_config (Some example_megastring))
          (\<lambda>_. Raises RuntimeError) 7 (request_from ''alice''))
     = Inr (PyBool False, PyStr ''passed blacklist'')
   \<and> priority (fresh_miner default_config (Some example_megastring))
          (\<lambda>_. Raises NotImplementedError) 7 8 (request_from ''carol'')
     = Inr (0, fresh_miner default_config (Some example_megastring))
   \<and> snd (blacklist busy_miner (\<lambda>_. Returns (PyTuple [])) 1200 (request_from ''alice''))
     = Inr (PyBool True, PyStr ''alice request frequency exceeded 50 requests in 5 minutes.'')
   \<and> map_sum id fst (priority busy_miner (\<lambda>_. Returns None) 7000 7001 (request_from ''alice''))
     = Inr 100"
  using override_fallback
          [of "\<lambda>_. Raises RuntimeError" "request_from ''alice''" RuntimeError
              "\<lambda>_. Raises NotImplementedError" NotImplementedError
              "fresh_miner default_config (Some example_megastring)" 7 8]
        override_fallback
          [of "\<lambda>_. Raises RuntimeError" "request_from ''carol''" RuntimeError
              "\<lambda>_. Raises NotImplementedError" NotImplementedError
              "fresh_miner default_config (Some example_megastring)" 7 8]
        override_fallback
          [of "\<lambda>_. Returns (PyTuple [])" "request_from ''alice''" RuntimeError
              "\<lambda>_. Returns None" NotImplementedError busy_miner 1200 7001]
        override_fallback
          [of "\<lambda>_. Returns (PyTuple [])" "request_from ''alice''" RuntimeError
              "\<lambda>_. Returns None" NotImplementedError busy_miner 7000 7001]
  by (simp add: default_blacklist_def request_period_rule_def default_priority_def
      fresh_miner_def busy_miner_def default_config_def example_megastring_def request_from_def
      py_index_def str_int_def str_nat.simps)

subsection \<open>Claim C7: the length of a timestamp history\<close>

text \<open>
  Claim C7 as stated, for every configuration, fails on the code. With a configured
  length of 0 the tracker creates the empty list, appends, and slices with
  \<^verbatim>\<open>[-0:]\<close>, which keeps the whole list: the history has one entry, not zero. With a
  configured length of 5 the history has five entries, and the scorer's lookback
  \<^verbatim>\<open>[-10]\<close> on the caller's second request raises \<open>IndexError\<close>.
\<close>

theorem history_length_counterexample:
  "request_timestamps
      (record_request_timestamps
         (fresh_miner (default_config\<lparr>priority_len_request_timestamps := 0\<rparr>) None)
         7 (request_from ''alice'')) ''alice'' = Some [7]
   \<and> request_timestamps
      (record_request_timestamps
         (fresh_miner (default_config\<lparr>priority_len_request_timestamps := 5\<rparr>)
            (Some example_megastring))
         8 (request_from ''alice'')) ''alice'' = Some [0, 0, 0, 0, 8]
   \<and> default_priority
      (record_request_timestamps
         (fresh_miner (default_config\<lparr>priority_len_request_timestamps := 5\<rparr>)
            (Some example_megastring))
         8 (request_from ''alice'')) 9 10 (request_from ''alice'') = Inl IndexError"
  by (simp add: record_request_timestamps_def default_priority_def fresh_miner_def
      default_config_def example_megastring_def request_from_def py_repeat_def
      py_slice_from_def py_index_def Let_def eval_nat_numeral)

text \<open>
  Claim C7, amended. Let every stored history have the configured length \<open>N\<close> before the
  tracker runs (as in a fresh miner, which stores none). If \<open>N \<ge> 1\<close>, then the tracker's
  record operation does the following. A caller without a history gets \<open>N - 1\<close> sentinel
  zeros followed by the new timestamp (\<open>N\<close> zeros, the timestamp appended, the oldest entry
  dropped). A caller with a history \<open>h\<close> gets \<open>h\<close> without its oldest entry, followed by
  the new timestamp. The history of every other identity is left as it was. So every
  stored history has length exactly \<open>N\<close> afterwards and the lookback \<open>history[0]\<close> is in
  bounds. If \<open>N \<ge> 10\<close>, the scorer's lookback \<^verbatim>\<open>history[-10]\<close> is in bounds as well and
  reads \<open>history[N - 10]\<close>.
\<close>

theorem record_request_timestamps_length:
  assumes inv: "\<forall>k h. request_timestamps self k = Some h \<longrightarrow>
                  int (length h) = priority_len_request_timestamps (config self)"
  shows "(1 \<le> priority_len_request_timestamps (config self) \<longrightarrow>
           (request_timestamps self (hotkey nucleon) = None \<longrightarrow>
              request_timestamps (record_request_timestamps self t nucleon) (hotkey nucleon)
                = Some (replicate (nat (priority_len_request_timestamps (config self)) - 1) 0 @ [t]))
           \<and> (\<forall>h0. request_timestamps self (hotkey nucleon) = Some h0 \<longrightarrow>
                 request_timestamps (record_request_timestamps self t nucleon) (hotkey nucleon)
                   = Some (tl h0 @ [t]))
           \<and> (\<forall>k. k \<noteq> hotkey nucleon \<longrightarrow>
                 request_timestamps (record_request_timestamps self t nucleon) k
                   = request_timestamps self k)
           \<and> (\<forall>k h. request_timestamps (record_request_timestamps self t nucleon) k = Some h \<longrightarrow>
                 int (length h) = priority_len_request_timestamps (config self)
                 \<and> py_index h 0 = Inr (h ! 0)))
       \<and> (10 \<le> priority_len_request_timestamps (config self) \<longrightarrow>
           (\<forall>k h. request_timestamps (record_request_timestamps self t nucleon) k = Some h \<longrightarrow>
                 py_index h (- 10)
                   = Inr (h ! nat (priority_len_request_timestamps (config self) - 10))))"
proof (intro conjI impI allI)
  assume "1 \<le> priority_len_request_timestamps (config self)"
    and "request_timestamps self (hotkey nucleon) = None"
  then show "request_timestamps (record_request_timestamps self t nucleon) (hotkey nucleon)
                = Some (replicate (nat (priority_len_request_timestamps (config self)) - 1) 0 @ [t])"
    by (rule record_request_timestamps_creates)
next
  fix h0
  assume len: "1 \<le> priority_len_request_timestamps (config self)"
    and old: "request_timestamps self (hotkey nucleon) = Some h0"
  from inv old have "int (length h0) = priority_len_request_timestamps (config self)" by simp
  with len old
  show "request_timestamps (record_request_timestamps self t nucleon) (hotkey nucleon)
          = Some (tl h0 @ [t])"
    by (rule record_request_timestamps_shifts)
next
  fix k
  assume "k \<noteq> hotkey nucleon"
  then show "request_timestamps (record_request_timestamps self t nucleon) k
               = request_timestamps self k"
    by (rule record_request_timestamps_other)
next
  fix k h
  assume "1 \<le> priority_len_request_timestamps (config self)"
    and "request_timestamps (record_request_timestamps self t nucleon) k = Some h"
  then show "int (length h) = priority_len_request_timestamps (config self)"
    by (rule record_request_timestamps_keeps_length [OF inv])
next
  fix k h
  assume len: "1 \<le> priority_len_request_timestamps (config self)"
    and rec: "request_timestamps (record_request_timestamps self t nucleon) k = Some h"
  from record_request_timestamps_keeps_length [OF inv len rec] len have "h \<noteq> []" by auto
  then show "py_index h 0 = Inr (h ! 0)" by (rule py_index_oldest)
next
  fix k h
  assume len: "10 \<le> priority_len_request_timestamps (config self)"
    and rec: "request_timestamps (record_request_timestamps self t nucleon) k = Some h"
  from len have "1 \<le> priority_len_request_timestamps (config self)" by simp
  from record_request_timestamps_keeps_length [OF inv this rec]
  have l: "int (length h) = priority_len_request_timestamps (config self)" .
  with len have ten: "10 \<le> length h" by linarith
  from l have "nat (priority_len_request_timestamps (config self) - 10) = length h - 10"
    by linarith
  with py_index_lookback [OF ten]
  show "py_index h (- 10) = Inr (h ! nat (priority_len_request_timestamps (config self) - 10))"
    by simp
qed

text \<open>
  With length 10 and the history 1 to 10, recording the reading 11 for \<open>alice\<close> gives 2 to
  11, whose lookbacks \<^verbatim>\<open>[0]\<close> and \<^verbatim>\<open>[-10]\<close> both read 2; recording it for \<open>bob\<close>, who has
  no history, gives nine zeros and 11 and leaves the history of \<open>alice\<close> alone. With the
  default length 50, the first recorded request leaves fifty entries whose lookback ten
  entries back is a sentinel zero.
\<close>

theorem record_request_timestamps_length_witness:
  "request_timestamps (record_request_timestamps counting_miner 11 (request_from ''alice''))
      ''alice'' = Some [2, 3, 4, 5, 6, 7, 8, 9, 10, 11]
   \<and> py_index [2, 3, 4, 5, 6, 7, 8, 9, 10, 11 :: real] (- 10) = Inr 2
   \<and> py_index [2, 3, 4, 5, 6, 7, 8, 9, 10, 11 :: real] 0 = Inr 2
   \<and> request_timestamps (record_request_timestamps counting_miner 11 (request_from ''bob''))
      ''bob'' = Some [0, 0, 0, 0, 0, 0, 0, 0, 0, 11]
   \<and> request_timestamps (record_request_timestamps counting_miner 11 (request_from ''bob''))
      ''alice'' = Some [1, 2, 3, 4, 5, 6, 7, 8, 9, 10]
   \<and> map_option length
     (request_timestamps
        (record_request_timestamps (fresh_miner default_config None) 7001 (request_from ''bob''))
        ''bob'') = Some 50
   \<and> map_option (\<lambda>h. py_index h (- 10))
     (request_timestamps
        (record_request_timestamps (fresh_miner default_config None) 7001 (request_from ''bob''))
        ''bob'') = Some (Inr 0)"
proof -
  have inv: "\<forall>k h. request_timestamps counting_miner k = Some h \<longrightarrow>
               int (length h) = priority_len_request_timestamps (config counting_miner)"
    by (simp add: counting_miner_def default_config_def)
  have ten: "10 \<le> priority_len_request_timestamps (config counting_miner)"
    by (simp add: counting_miner_def default_config_def)
  have a: "request_timestamps counting_miner (hotkey (request_from ''alice''))
             = Some [1, 2, 3, 4, 5, 6, 7, 8, 9, 10]"
    by (simp add: counting_miner_def request_from_def)
  have b: "request_timestamps counting_miner (hotkey (request_from ''bob'')) = None"
    by (simp add: counting_miner_def request_from_def)
  from record_request_timestamps_length [OF inv, of "request_from ''alice''" 11] ten a
  have A: "request_timestamps (record_request_timestamps counting_miner 11 (request_from ''alice''))
             ''alice'' = Some [2, 3, 4, 5, 6, 7, 8, 9, 10, 11]
           \<and> py_index [2, 3, 4, 5, 6, 7, 8, 9, 10, 11 :: real] (- 10) = Inr 2
           \<and> py_index [2, 3, 4, 5, 6, 7, 8, 9, 10, 11 :: real] 0 = Inr 2"
    by (simp add: request_from_def counting_miner_def default_config_def py_index_def)
  from record_request_timestamps_length [OF inv, of "request_from ''bob''" 11] ten b
  have B: "request_timestamps (record_request_timestamps counting_miner 11 (request_from ''bob''))
             ''bob'' = Some [0, 0, 0, 0, 0, 0, 0, 0, 0, 11]
           \<and> request_timestamps (record_request_timestamps counting_miner 11 (request_from ''bob''))
             ''alice'' = Some [1, 2, 3, 4, 5, 6, 7, 8, 9, 10]"
    by (simp add: request_from_def counting_miner_def default_config_def eval_nat_numeral)
  from record_request_timestamps_length
          [of "fresh_miner default_config None" "request_from ''bob''" 7001]
  have C: "map_option length
     (request_timestamps
        (record_request_timestamps (fresh_miner default_config None) 7001 (request_from ''bob''))
        ''bob'') = Some 50
   \<and> map_option (\<lambda>h. py_index h (- 10))
     (request_timestamps
        (record_request_timestamps (fresh_miner default_config None) 7001 (request_from ''bob''))
        ''bob'') = Some (Inr 0)"
    by (auto simp: fresh_miner_def default_config_def request_from_def nth_append)
  from A B C show ?thesis by simp
qed

subsection \<open>Claim C8: sentinel history and the request period\<close>

text \<open>
  Claim C8. Take a request that the whitelist, blacklist, registration and validator-permit
  rules all let through. If the caller's history has a sentinel zero at its oldest
  position and the clock is at least the configured window
  (\<^verbatim>\<open>min_request_period * 60\<close> seconds), the default policy accepts with "passed blacklist".
  And the default policy rejects such a request exactly when a non-empty history exists
  for the caller and \<open>now - history[0]\<close> is below the window. By \<open>record_requests_sentinel\<close>
  the sentinel is at the oldest position as long as fewer requests than the configured
  length have been recorded for the caller.
\<close>

theorem sentinel_history_not_rate_limited:
  assumes "hotkey nucleon \<notin> set (blacklist_whitelist (config self))"
    and "hotkey nucleon \<notin> set (blacklist_blacklist (config self))"
    and "blacklist_allow_non_registered (config self) \<or> megastring self = None
         \<or> (\<exists>m. megastring self = Some m \<and> hotkey nucleon \<in> set (hotkeys m))"
    and "\<not> blacklist_force_validator_permit (config self)
         \<or> (\<exists>m uid. megastring self = Some m
               \<and> list_index (hotkeys m) (hotkey nucleon) = Inr uid
               \<and> uid < length (validator_permit m) \<and> validator_permit m ! uid)"
  shows "(request_timestamps self (hotkey nucleon) = Some h \<and> h \<noteq> [] \<and> h ! 0 = 0
            \<and> real_of_int (blacklist_min_request_period (config self) * 60) \<le> now \<longrightarrow>
          default_blacklist self now nucleon = Inr (False, ''passed blacklist''))
       \<and> ((\<exists>r. default_blacklist self now nucleon = Inr (True, r))
            \<longleftrightarrow> (\<exists>h'. request_timestamps self (hotkey nucleon) = Some h' \<and> h' \<noteq> []
                  \<and> now - h' ! 0 < real_of_int (blacklist_min_request_period (config self) * 60)))"
  unfolding default_blacklist_reaches_request_period [OF assms] request_period_rule_rejects_iff
  by (simp add: request_period_rule_def py_index_oldest)

text \<open>
  \<open>alice\<close> made her first request one second ago; forty-nine sentinel zeros are still in
  front of it, and she is not rate-limited.
\<close>

theorem sentinel_history_not_rate_limited_witness:
  "default_blacklist
     (record_request_timestamps (fresh_miner default_config (Some example_megastring))
        1700000000 (request_from ''alice''))
     1700000001 (request_from ''alice'') = Inr (False, ''passed blacklist'')"
  using sentinel_history_not_rate_limited
          [of "request_from ''alice''"
              "record_request_timestamps (fresh_miner default_config (Some example_megastring))
                 1700000000 (request_from ''alice'')"
              "replicate 49 0 @ [1700000000]" 1700000001]
        record_request_timestamps_creates
          [of "fresh_miner default_config (Some example_megastring)" "request_from ''alice''"
              1700000000]
  by (simp add: record_request_timestamps_fields fresh_miner_def default_config_def
      example_megastring_def request_from_def nth_append)

subsection \<open>Claim C9: monotonicity of the priority\<close>

text \<open>
  Claim C9. For a registered caller with a history long enough for the lookback and a
  positive doubling period: with the clock (hence the elapsed time) fixed, replacing the
  caller's stake by a larger one does not lower the score; with a non-negative stake
  fixed, a later clock reading (a larger elapsed time) does not lower the score, for
  every scale and in particular for scale \<open>\<ge> 1\<close>.
\<close>

theorem default_priority_monotone:
  assumes snap: "megastring self = Some m"
    and uid: "list_index (hotkeys m) (hotkey nucleon) = Inr uid"
    and stake: "uid < length (S m)"
    and hist: "request_timestamps self (hotkey nucleon) = Some h" "10 \<le> length h"
    and period: "0 < priority_time_stake_multiplicate (config self)"
  shows "(\<forall>s1 s2. s1 \<le> s2 \<longrightarrow>
            (\<exists>p1 p2.
               map_sum id fst (default_priority
                   (self\<lparr>megastring := Some (m\<lparr>S := (S m)[uid := s1]\<rparr>)\<rparr>) now now_rec nucleon) = Inr p1
             \<and> map_sum id fst (default_priority
                   (self\<lparr>megastring := Some (m\<lparr>S := (S m)[uid := s2]\<rparr>)\<rparr>) now now_rec nucleon) = Inr p2
             \<and> p1 \<le> p2))
       \<and> (\<forall>now1 now2. 0 \<le> S m ! uid \<and> now1 \<le> now2 \<longrightarrow>
            (\<exists>p1 p2.
               map_sum id fst (default_priority self now1 now_rec nucleon) = Inr p1
             \<and> map_sum id fst (default_priority self now2 now_rec nucleon) = Inr p2
             \<and> p1 \<le> p2))"
proof (intro conjI allI impI)
  fix s1 s2 :: real
  assume le: "s1 \<le> s2"
  have ne: "priority_time_stake_multiplicate (config self) \<noteq> 0" using period by simp
  have scale: "0 \<le> max ((now - h ! (length h - 10))
                        / real_of_int (priority_time_stake_multiplicate (config self) * 60)) 1"
    by simp
  have v: "map_sum id fst (default_priority
             (self\<lparr>megastring := Some (m\<lparr>S := (S m)[uid := s]\<rparr>)\<rparr>) now now_rec nucleon)
           = Inr (max ((now - h ! (length h - 10))
                        / real_of_int (priority_time_stake_multiplicate (config self) * 60)) 1 * s)"
    for s
    using default_priority_history
            [of "self\<lparr>megastring := Some (m\<lparr>S := (S m)[uid := s]\<rparr>)\<rparr>"
                "m\<lparr>S := (S m)[uid := s]\<rparr>" nucleon uid h now now_rec]
          uid stake hist ne
    by simp
  from le scale show "\<exists>p1 p2.
               map_sum id fst (default_priority
                   (self\<lparr>megastring := Some (m\<lparr>S := (S m)[uid := s1]\<rparr>)\<rparr>) now now_rec nucleon) = Inr p1
             \<and> map_sum id fst (default_priority
                   (self\<lparr>megastring := Some (m\<lparr>S := (S m)[uid := s2]\<rparr>)\<rparr>) now now_rec nucleon) = Inr p2
             \<and> p1 \<le> p2"
    unfolding v by (simp add: mult_left_mono)
next
  fix now1 now2 :: real
  assume a: "0 \<le> S m ! uid \<and> now1 \<le> now2"
  have ne: "priority_time_stake_multiplicate (config self) \<noteq> 0" using period by simp
  have pos: "0 < real_of_int (priority_time_stake_multiplicate (config self) * 60)"
    using period by simp
  have v: "map_sum id fst (default_priority self t now_rec nucleon)
           = Inr (max ((t - h ! (length h - 10))
                        / real_of_int (priority_time_stake_multiplicate (config self) * 60)) 1
                  * S m ! uid)"
    for t
    using default_priority_history [OF snap uid stake hist ne] by simp
  from a have "now1 - h ! (length h - 10) \<le> now2 - h ! (length h - 10)" by simp
  with pos have "(now1 - h ! (length h - 10))
                   / real_of_int (priority_time_stake_multiplicate (config self) * 60)
               \<le> (now2 - h ! (length h - 10))
                   / real_of_int (priority_time_stake_multiplicate (config self) * 60)"
    by (simp add: divide_right_mono)
  then have "max ((now1 - h ! (length h - 10))
                   / real_of_int (priority_time_stake_multiplicate (config self) * 60)) 1
           \<le> max ((now2 - h ! (length h - 10))
                   / real_of_int (priority_time_stake_multiplicate (config self) * 60)) 1"
    by (rule max.mono) simp
  with a show "\<exists>p1 p2.
               map_sum id fst (default_priority self now1 now_rec nucleon) = Inr p1
             \<and> map_sum id fst (default_priority self now2 now_rec nucleon) = Inr p2
             \<and> p1 \<le> p2"
    unfolding v by (simp add: mult_right_mono)
qed

text \<open>
  Elapsed 6000 seconds: stake 2 scores 20 and stake 5 scores 50. Stake 10: elapsed 6000
  scores 100 and elapsed 12000 scores 200.
\<close>

theorem default_priority_monotone_witness:
  "map_sum id fst (default_priority
      (busy_miner\<lparr>megastring := Some (example_megastring\<lparr>S := [2, 3]\<rparr>)\<rparr>)
      7000 7001 (request_from ''alice'')) = Inr 20
   \<and> map_sum id fst (default_priority
      (busy_miner\<lparr>megastring := Some (example_megastring\<lparr>S := [5, 3]\<rparr>)\<rparr>)
      7000 7001 (request_from ''alice'')) = Inr 50
   \<and> map_sum id fst (default_priority busy_miner 7000 7001 (request_from ''alice'')) = Inr 100
   \<and> map_sum id fst (default_priority busy_miner 13000 7001 (request_from ''alice'')) = Inr 200"
  using default_priority_monotone
          [of busy_miner example_megastring "request_from ''alice''" 0 "replicate 50 1000"
              7000 7001]
  by (simp add: busy_miner_def default_config_def example_megastring_def request_from_def
      default_priority_def py_index_def)

subsection \<open>Claim C10: an override that returns a value without a length\<close>

text \<open>
  Claim C10. If the custom admission function returns, without raising, a value that has
  no length and is not \<^verbatim>\<open>None\<close> (a bare boolean, say), the dispatcher returns that value
  paired with "no reason provided" and makes no call to the default policy. If the value
  is \<^verbatim>\<open>None\<close>, the \<^verbatim>\<open>finally\<close> block calls the default policy once and returns its outcome.
\<close>

theorem blacklist_lengthless_result:
  "(func nucleon = Returns v \<and> \<not> has_len v \<and> v \<noteq> PyNone \<longrightarrow>
      blacklist self func now nucleon = (0, Inr (v, PyStr ''no reason provided'')))
   \<and> (func nucleon = Returns PyNone \<longrightarrow>
      blacklist self func now nucleon
        = (1, map_sum id as_pyval (default_blacklist self now nucleon)))"
  by (cases "default_blacklist self now nucleon")
     (auto simp: blacklist_def Let_def split: sum.splits prod.splits)

text \<open>
  A bare \<open>True\<close> is returned as it is, in a state where any call of the default policy
  would raise; a returned \<^verbatim>\<open>None\<close> is replaced by the default policy's verdict.
\<close>

theorem blacklist_lengthless_result_witness:
  "blacklist (fresh_miner (default_config\<lparr>blacklist_force_validator_permit := True\<rparr>) None)
      (\<lambda>_. Returns (PyBool True)) 7 (request_from ''alice'')
     = (0, Inr (PyBool True, PyStr ''no reason provided''))
   \<and> blacklist (fresh_miner default_config (Some example_megastring))
      (\<lambda>_. Returns PyNone) 7 (request_from ''carol'')
     = (1, Inr (PyBool True, PyStr ''hotkey not registered''))"
  using blacklist_lengthless_result
          [of "\<lambda>_. Returns (PyBool True)" "request_from ''alice''" "PyBool True"
              "fresh_miner (default_config\<lparr>blacklist_force_validator_permit := True\<rparr>) None" 7]
        blacklist_lengthless_result
          [of "\<lambda>_. Returns PyNone" "request_from ''carol''" PyNone
              "fresh_miner default_config (Some example_megastring)" 7]
  by (simp add: default_blacklist_def fresh_miner_def default_config_def
      example_megastring_def request_from_def)

end
